theory Spec2Isabelle
  imports Complex_Main
begin

section \<open>Spectral transforms of torchaudio-contrib (functional.py, layers.py)\<close>

text \<open>
  The numeric tensors of the library hold floating-point numbers; the embedding computes
  over the real numbers, so every equation below is exact real arithmetic. One-dimensional
  tensors are lists, a matrix is the list of its rows.
\<close>

subsection \<open>Errors\<close>

datatype error = TypeError | AttributeError | IndexError | RuntimeError

subsection \<open>Mel scale: \<open>_mel_to_hertz\<close> and \<open>_hertz_to_mel\<close>\<close>

text \<open>
  Both functions work elementwise (\<open>torch.where\<close> selects per element), so each is
  given on one element.
\<close>

definition mel_to_hertz :: "real \<Rightarrow> bool \<Rightarrow> real" where
  "mel_to_hertz mel htk =
     (if htk then 700 * (10 powr (mel / 2595) - 1)
      else
        let f_min = 0;
            f_sp = 200 / 3;
            hz = f_min + f_sp * mel;
            min_log_hz = 1000;
            min_log_mel = (min_log_hz - f_min) / f_sp;
            logstep = ln 6.4 / 27
        in if mel \<ge> min_log_mel then min_log_hz * exp (logstep * (mel - min_log_mel)) else hz)"

definition hertz_to_mel :: "real \<Rightarrow> bool \<Rightarrow> real" where
  "hertz_to_mel hz htk =
     (if htk then 2595 * log 10 (1 + hz / 700)
      else
        let f_min = 0;
            f_sp = 200 / 3;
            mel = (hz - f_min) / f_sp;
            min_log_hz = 1000;
            min_log_mel = (min_log_hz - f_min) / f_sp;
            logstep = ln 6.4 / 27
        in if hz \<ge> min_log_hz then min_log_mel + ln (hz / min_log_hz) / logstep else mel)"

subsection \<open>\<open>torch.linspace\<close>\<close>

text \<open>
  \<open>torch.linspace(start, end, steps)\<close>: \<open>steps\<close> points from \<open>start\<close> to \<open>end\<close>
  inclusive, at equal distance \<open>(end - start) / (steps - 1)\<close>; a single step yields
  \<open>start\<close> alone.
\<close>

definition linspace :: "real \<Rightarrow> real \<Rightarrow> nat \<Rightarrow> real list" where
  "linspace start stop steps =
     (if steps = 1 then [start]
      else map (\<lambda>i. start + real i * ((stop - start) / (real steps - 1))) [0..<steps])"

subsection \<open>Mel filterbank: \<open>create_mel_filter\<close>\<close>

text \<open>
  The matrix has shape \<open>(num_freqs, num_mels)\<close>: row \<open>i\<close> belongs to the frequency
  sample \<open>stft_freqs[i]\<close>, column \<open>j\<close> to the triangle over the boundary frequencies
  \<open>f_pts[j]\<close>, \<open>f_pts[j+1]\<close>, \<open>f_pts[j+2]\<close>. The slices of the source are list
  operations: \<open>x[1:]\<close> is \<open>tl\<close>, \<open>x[:-1]\<close> is \<open>butlast\<close>, \<open>x[2:]\<close> is \<open>drop 2\<close>;
  a row vector is broadcast over the rows of a matrix. A division by a zero entry of
  \<open>f_diff\<close> gives an infinity or a NaN on floats (no error is raised); the theorems below
  hold where the boundary frequencies increase strictly, so no such division occurs.
\<close>

definition create_mel_filter :: "nat \<Rightarrow> nat \<Rightarrow> real \<Rightarrow> real \<Rightarrow> bool \<Rightarrow> real list list" where
  "create_mel_filter num_freqs num_mels min_freq max_freq htk =
     (let m_min = hertz_to_mel min_freq htk;
          m_max = hertz_to_mel max_freq htk;
          stft_freqs = linspace min_freq max_freq num_freqs;
          m_pts = linspace m_min m_max (num_mels + 2);
          f_pts = map (\<lambda>m. mel_to_hertz m htk) m_pts;
          f_diff = map2 (-) (tl f_pts) (butlast f_pts);
          slopes = map (\<lambda>s. map (\<lambda>f. f - s) f_pts) stft_freqs;
          down_slopes =
            map (\<lambda>row. map2 (\<lambda>s d. (-1 * s) / d) (butlast (butlast row)) (butlast f_diff)) slopes;
          up_slopes = map (\<lambda>row. map2 (\<lambda>s d. s / d) (drop 2 row) (tl f_diff)) slopes;
          mel_filterbank = map2 (map2 (\<lambda>d u. max (min d u) 0)) down_slopes up_slopes
      in mel_filterbank)"

text \<open>The two local vectors of \<open>create_mel_filter\<close> that its properties are stated about.\<close>

definition stft_freqs :: "nat \<Rightarrow> real \<Rightarrow> real \<Rightarrow> real list" where
  "stft_freqs num_freqs min_freq max_freq = linspace min_freq max_freq num_freqs"

definition f_pts :: "nat \<Rightarrow> real \<Rightarrow> real \<Rightarrow> bool \<Rightarrow> real list" where
  "f_pts num_mels min_freq max_freq htk =
     map (\<lambda>m. mel_to_hertz m htk)
       (linspace (hertz_to_mel min_freq htk) (hertz_to_mel max_freq htk) (num_mels + 2))"

subsection \<open>Tensors with four leading axes\<close>

text \<open>
  A tensor of shape \<open>(dim0, dim1, dim2, dim3)\<close> is its shape together with the function
  from an index to the element there (only indices inside the shape are meaningful). For
  a magnitude spectrogram \<open>(batch, channel, num_freqs, time)\<close> the elements are reals;
  for a complex spectrogram \<open>(batch, channel, num_bins, time, complex=2)\<close> an element is
  the trailing pair \<open>(real, imaginary)\<close>.
\<close>

record 'a tensor4 =
  dim0 :: nat
  dim1 :: nat
  dim2 :: nat
  dim3 :: nat
  elem :: "nat \<Rightarrow> nat \<Rightarrow> nat \<Rightarrow> nat \<Rightarrow> 'a"

definition tensor_of :: "nat \<Rightarrow> nat \<Rightarrow> nat \<Rightarrow> nat \<Rightarrow> 'a list list list list \<Rightarrow> 'a tensor4" where
  \<comment> \<open>The tensor of the given shape whose elements are written as nested lists.\<close>
  "tensor_of n0 n1 n2 n3 xs =
     \<lparr>dim0 = n0, dim1 = n1, dim2 = n2, dim3 = n3, elem = (\<lambda>b c f t. xs ! b ! c ! f ! t)\<rparr>"

definition same_tensor :: "'a tensor4 \<Rightarrow> 'a tensor4 \<Rightarrow> bool" where
  \<comment> \<open>Equal shapes and equal elements at every index inside the shape.\<close>
  "same_tensor x y \<longleftrightarrow>
     dim0 x = dim0 y \<and> dim1 x = dim1 y \<and> dim2 x = dim2 y \<and> dim3 x = dim3 y
     \<and> (\<forall>b < dim0 x. \<forall>c < dim1 x. \<forall>f < dim2 x. \<forall>t < dim3 x. elem x b c f t = elem y b c f t)"

subsection \<open>Filterbank application: \<open>apply_filterbank\<close>\<close>

definition transpose_last :: "'a tensor4 \<Rightarrow> 'a tensor4" where
  \<comment> \<open>\<open>x.transpose(-2, -1)\<close>\<close>
  "transpose_last x =
     \<lparr>dim0 = dim0 x, dim1 = dim1 x, dim2 = dim3 x, dim3 = dim2 x,
      elem = (\<lambda>b c i j. elem x b c j i)\<rparr>"

definition num_columns :: "real list list \<Rightarrow> nat" where
  "num_columns m = (case m of [] \<Rightarrow> 0 | r # _ \<Rightarrow> length r)"

definition matmul :: "real tensor4 \<Rightarrow> real list list \<Rightarrow> error + real tensor4" where
  \<comment> \<open>\<open>torch.matmul\<close> of a batch of matrices \<open>(dim2, dim3)\<close> with one matrix
      \<open>(rows, columns)\<close>; the contracted sizes must agree.\<close>
  "matmul x m =
     (if dim3 x \<noteq> length m then Inl RuntimeError
      else Inr \<lparr>dim0 = dim0 x, dim1 = dim1 x, dim2 = dim2 x, dim3 = num_columns m,
                elem = (\<lambda>b c i j. \<Sum>k < dim3 x. elem x b c i k * (m ! k ! j))\<rparr>)"

definition apply_filterbank :: "real tensor4 \<Rightarrow> real list list \<Rightarrow> error + real tensor4" where
  "apply_filterbank mag_specgrams filterbank =
     (case matmul (transpose_last mag_specgrams) filterbank of
        Inl e \<Rightarrow> Inl e
      | Inr y \<Rightarrow> Inr (transpose_last y))"

definition identity_matrix :: "nat \<Rightarrow> real list list" where
  \<comment> \<open>The \<open>n \<times> n\<close> identity matrix (\<open>torch.eye(n)\<close>).\<close>
  "identity_matrix n = map (\<lambda>i. map (\<lambda>j. if i = j then 1 else 0) [0..<n]) [0..<n]"

subsection \<open>Complex pairs: \<open>angle\<close> and the norm over the last axis\<close>

definition atan2 :: "real \<Rightarrow> real \<Rightarrow> real" where
  \<comment> \<open>\<open>torch.atan2(y, x)\<close>, with values in \<open>(-\<pi>, \<pi>]\<close>.\<close>
  "atan2 y x =
     (if 0 < x then arctan (y / x)
      else if x < 0 \<and> 0 \<le> y then arctan (y / x) + pi
      else if x < 0 then arctan (y / x) - pi
      else if 0 < y then pi / 2
      else if y < 0 then - (pi / 2)
      else 0)"

definition angle :: "real \<times> real \<Rightarrow> real" where
  \<comment> \<open>\<open>torch.atan2(complex_tensor[..., 1], complex_tensor[..., 0])\<close>\<close>
  "angle z = atan2 (snd z) (fst z)"

definition norm_last :: "real \<times> real \<Rightarrow> real" where
  \<comment> \<open>\<open>torch.norm(x, dim=-1)\<close>: the Euclidean norm of the trailing pair.\<close>
  "norm_last z = sqrt ((fst z)\<^sup>2 + (snd z)\<^sup>2)"

subsection \<open>Phase vocoder: \<open>phase_vocoder\<close>\<close>

definition arange :: "real \<Rightarrow> real \<Rightarrow> real \<Rightarrow> error + real list" where
  \<comment> \<open>\<open>torch.arange(start, end, step)\<close>: \<open>\<lceil>(end - start) / step\<rceil>\<close> values
      \<open>start + k * step\<close>; a zero step, or a step pointing away from \<open>end\<close>, is an error.\<close>
  "arange start stop step =
     (if step = 0 then Inl RuntimeError
      else if (0 < step \<and> stop < start) \<or> (step < 0 \<and> start < stop) then Inl RuntimeError
      else Inr (map (\<lambda>k. start + real k * step) [0..<nat \<lceil>(stop - start) / step\<rceil>]))"

definition torch_round :: "real \<Rightarrow> real" where
  \<comment> \<open>\<open>torch.round\<close>: to the nearest integer, a half to the even neighbour.\<close>
  "torch_round x =
     (let f = \<lfloor>x\<rfloor>; d = x - of_int f
      in if d < 1 / 2 then of_int f
         else if 1 / 2 < d then of_int (f + 1)
         else if even f then of_int f else of_int (f + 1))"

text \<open>
  \<open>phi_advance\<close> has shape \<open>(num_bins, 1)\<close>: the list holds its \<open>num_bins\<close> rows, each of
  one entry, which is broadcast along the time axis. A table with a single row is
  broadcast over the bins as well; any other row count that differs from \<open>num_bins\<close> makes
  the tensor operations fail. \<open>time_steps % 1\<close> is the fractional part and \<open>.long()\<close> the
  integer part of a non-negative number. The padding appends two zero frames at the end
  of the time axis; \<open>cat([phase_0, phase[..., :-1]])\<close> shifts the phase increments by one
  frame behind the phase of the first input frame, and \<open>cumsum\<close> sums them up to each frame.
\<close>

definition pad_time :: "(real \<times> real) tensor4 \<Rightarrow> nat \<Rightarrow> nat \<Rightarrow> nat \<Rightarrow> nat \<Rightarrow> real \<times> real" where
  \<comment> \<open>\<open>torch.nn.functional.pad(spect, [0, 0] + [0, 2] + [0] * 6)\<close>: the elements after two
      zero frames are appended to the time axis (which then has \<open>dim3 spect + 2\<close> frames).\<close>
  "pad_time spect b c f t = (if t < dim3 spect then elem spect b c f t else (0, 0))"

definition phase_vocoder ::
  "(real \<times> real) tensor4 \<Rightarrow> real \<Rightarrow> real list \<Rightarrow> error + (real \<times> real) tensor4" where
  "phase_vocoder spect rate phi_advance =
     (case arange 0 (real (dim3 spect)) rate of
        Inl e \<Rightarrow> Inl e
      | Inr time_steps \<Rightarrow>
          if length phi_advance \<noteq> dim2 spect \<and> length phi_advance \<noteq> 1 then Inl RuntimeError
          else
            let phi = (\<lambda>f. if length phi_advance = 1 then phi_advance ! 0 else phi_advance ! f);
                alphas = (\<lambda>k. frac (time_steps ! k));
                phase_0 = (\<lambda>b c f. angle (elem spect b c f 0));
                padded = pad_time spect;
                spect_0 = (\<lambda>b c f k. padded b c f (nat \<lfloor>time_steps ! k\<rfloor>));
                spect_1 = (\<lambda>b c f k. padded b c f (nat \<lfloor>time_steps ! k + 1\<rfloor>));
                spect_0_angle = (\<lambda>b c f k. angle (spect_0 b c f k));
                spect_1_angle = (\<lambda>b c f k. angle (spect_1 b c f k));
                spect_0_norm = (\<lambda>b c f k. norm_last (spect_0 b c f k));
                spect_1_norm = (\<lambda>b c f k. norm_last (spect_1 b c f k));
                spect_phase = (\<lambda>b c f k. spect_1_angle b c f k - spect_0_angle b c f k - phi f);
                spect_phase = (\<lambda>b c f k. spect_phase b c f k
                                 - 2 * pi * torch_round (spect_phase b c f k / (2 * pi)));
                phase = (\<lambda>b c f k. spect_phase b c f k + phi f);
                phase = (\<lambda>b c f k. if k = 0 then phase_0 b c f else phase b c f (k - 1));
                phase_acc = (\<lambda>b c f k. \<Sum>j \<le> k. phase b c f j);
                mag = (\<lambda>b c f k. alphas k * spect_1_norm b c f k
                                 + (1 - alphas k) * spect_0_norm b c f k);
                spect_stretch_real = (\<lambda>b c f k. mag b c f k * cos (phase_acc b c f k));
                spect_stretch_imag = (\<lambda>b c f k. mag b c f k * sin (phase_acc b c f k))
            in Inr \<lparr>dim0 = dim0 spect, dim1 = dim1 spect, dim2 = dim2 spect,
                    dim3 = length time_steps,
                    elem = (\<lambda>b c f k. (spect_stretch_real b c f k, spect_stretch_imag b c f k))\<rparr>)"

text \<open>
  Names for what \<open>phase_vocoder\<close> computes at one output frame \<open>k\<close> of one bin:
  the table entry of the bin, the interpolated magnitude \<open>mag\<close>, and the phase increment
  that \<open>cumsum\<close> adds at frame \<open>j\<close>. The time step of frame \<open>k\<close> is \<open>k * rate\<close>.
\<close>

definition phi_at :: "real list \<Rightarrow> nat \<Rightarrow> real" where
  "phi_at phi_advance f = (if length phi_advance = 1 then phi_advance ! 0 else phi_advance ! f)"

definition interpolated_mag ::
  "(real \<times> real) tensor4 \<Rightarrow> real \<Rightarrow> nat \<Rightarrow> nat \<Rightarrow> nat \<Rightarrow> nat \<Rightarrow> real" where
  "interpolated_mag spect rate b c f k =
     (let t = real k * rate
      in frac t * norm_last (pad_time spect b c f (nat \<lfloor>t + 1\<rfloor>))
         + (1 - frac t) * norm_last (pad_time spect b c f (nat \<lfloor>t\<rfloor>)))"

definition phase_increment ::
  "(real \<times> real) tensor4 \<Rightarrow> real \<Rightarrow> real \<Rightarrow> nat \<Rightarrow> nat \<Rightarrow> nat \<Rightarrow> nat \<Rightarrow> real" where
  "phase_increment spect rate phi b c f j =
     (if j = 0 then angle (elem spect b c f 0)
      else
        let t = real (j - 1) * rate;
            d = angle (pad_time spect b c f (nat \<lfloor>t + 1\<rfloor>))
                - angle (pad_time spect b c f (nat \<lfloor>t\<rfloor>)) - phi
        in d - 2 * pi * torch_round (d / (2 * pi)) + phi)"

subsection \<open>The layer \<open>StretchSpecTime\<close>\<close>

record StretchSpecTime =
  self_rate :: real
  self_phi_advance :: "real list"

definition StretchSpecTime_init :: "real \<Rightarrow> int \<Rightarrow> nat \<Rightarrow> StretchSpecTime" where
  \<comment> \<open>\<open>linspace(0, math.pi * hop_len, num_bins)[..., None]\<close>: the column of shape
      \<open>(num_bins, 1)\<close>, held as the list of its entries.\<close>
  "StretchSpecTime_init rate hop_len num_bins =
     \<lparr>self_rate = rate, self_phi_advance = linspace 0 (pi * of_int hop_len) num_bins\<rparr>"

definition StretchSpecTime_forward ::
  "StretchSpecTime \<Rightarrow> (real \<times> real) tensor4 \<Rightarrow> real option \<Rightarrow> error + (real \<times> real) tensor4" where
  "StretchSpecTime_forward self complex_specgrams rate =
     (let rate = (case rate of None \<Rightarrow> self_rate self | Some r \<Rightarrow> r)
      in phase_vocoder complex_specgrams rate (self_phi_advance self))"

subsection \<open>Framing: \<open>stft\<close> and the layer \<open>STFT\<close>\<close>

text \<open>
  The framing code does shape bookkeeping around two library calls, so a tensor is
  given here by its shape, and sizes are natural numbers. A Python value that may or
  may not be a tensor (the \<open>window\<close> argument, the value \<open>stft\<close> returns) is a
  \<open>pyobj\<close>.
\<close>

datatype pyobj = PyNone | NonTensor | Tensor "nat list"

text \<open>The arguments with which \<open>stft\<close> calls \<open>torch.stft\<close> (always with \<open>center=False\<close>).\<close>

record stft_request =
  req_input :: "nat list"
  req_n_fft :: nat
  req_hop_length :: nat
  req_window :: pyobj
  req_win_length :: nat

definition F_pad :: "nat list \<Rightarrow> nat \<Rightarrow> error + nat list" where
  \<comment> \<open>\<open>F.pad(waveforms, (pad, pad), pad_mode)\<close>: \<open>pad\<close> more samples on both ends of the
      last axis. The checks of the library that depend on the padding mode are left out.\<close>
  "F_pad shape pad =
     (case shape of [] \<Rightarrow> Inl RuntimeError
      | _ \<Rightarrow> Inr (butlast shape @ [last shape + 2 * pad]))"

definition size0 :: "pyobj \<Rightarrow> error + nat" where
  \<comment> \<open>\<open>window.size(0)\<close>\<close>
  "size0 window =
     (case window of
        Tensor (n # _) \<Rightarrow> Inr n
      | Tensor [] \<Rightarrow> Inl IndexError
      | _ \<Rightarrow> Inl AttributeError)"

definition torch_stft :: "stft_request \<Rightarrow> error + nat list" where
  \<comment> \<open>The library's \<open>torch.stft\<close> on a batch of signals \<open>(N, T)\<close> without centering:
      it first validates its arguments, then returns
      \<open>(N, n_fft / 2 + 1, (T - n_fft) / hop_length + 1, 2)\<close>.\<close>
  "torch_stft r =
     (case req_input r of
        [n, t] \<Rightarrow>
          if req_n_fft r = 0 \<or> t < req_n_fft r then Inl RuntimeError
          else if req_hop_length r = 0 then Inl RuntimeError
          else if req_win_length r = 0 \<or> req_n_fft r < req_win_length r then Inl RuntimeError
          else if req_window r \<noteq> Tensor [req_win_length r] then Inl RuntimeError
          else Inr [n, req_n_fft r div 2 + 1, (t - req_n_fft r) div req_hop_length r + 1, 2]
      | _ \<Rightarrow> Inl RuntimeError)"

definition stft_request_of ::
  "nat list \<Rightarrow> nat \<Rightarrow> nat \<Rightarrow> pyobj \<Rightarrow> nat \<Rightarrow> error + (bool \<times> nat list \<times> stft_request)" where
  \<comment> \<open>The body of \<open>stft\<close> up to its call of \<open>torch.stft\<close>: the flag \<open>add_batch_dim\<close>,
      \<open>leading_dims\<close> and the arguments of the call. \<open>reshape(-1, n)\<close> cannot infer the
      first size when \<open>n = 0\<close>.\<close>
  "stft_request_of waveforms fft_len hop_len window pad =
     (let add_batch_dim = (length waveforms = 2);
          waveforms = (if add_batch_dim then 1 # waveforms else waveforms)
      in case (if pad > 0 then F_pad waveforms pad else Inr waveforms) of
           Inl e \<Rightarrow> Inl e
         | Inr waveforms \<Rightarrow>
             (case waveforms of
                [] \<Rightarrow> Inl IndexError
              | _ \<Rightarrow>
                  let leading_dims = butlast waveforms
                  in if last waveforms = 0 then Inl RuntimeError
                     else
                       let waveforms = [prod_list leading_dims, last waveforms]
                       in case size0 window of
                            Inl e \<Rightarrow> Inl e
                          | Inr win_length \<Rightarrow>
                              Inr (add_batch_dim, leading_dims,
                                   \<lparr>req_input = waveforms, req_n_fft = fft_len,
                                    req_hop_length = hop_len, req_window = window,
                                    req_win_length = win_length\<rparr>)))"

definition stft_complex_specgrams ::
  "nat list \<Rightarrow> nat \<Rightarrow> nat \<Rightarrow> pyobj \<Rightarrow> nat \<Rightarrow> error + nat list" where
  \<comment> \<open>The local variable \<open>complex_specgrams\<close> when the body of \<open>stft\<close> has run.\<close>
  "stft_complex_specgrams waveforms fft_len hop_len window pad =
     (case stft_request_of waveforms fft_len hop_len window pad of
        Inl e \<Rightarrow> Inl e
      | Inr (add_batch_dim, leading_dims, request) \<Rightarrow>
          (case torch_stft request of
             Inl e \<Rightarrow> Inl e
           | Inr complex_specgrams \<Rightarrow>
               let complex_specgrams = leading_dims @ tl complex_specgrams
               in if add_batch_dim then Inr (tl complex_specgrams) else Inr complex_specgrams))"

definition stft :: "nat list \<Rightarrow> nat \<Rightarrow> nat \<Rightarrow> pyobj \<Rightarrow> nat \<Rightarrow> error + pyobj" where
  \<comment> \<open>The body of \<open>stft\<close> ends after the last assignment to \<open>complex_specgrams\<close>, with no
      \<open>return\<close> statement, so the call returns \<open>None\<close>.\<close>
  "stft waveforms fft_len hop_len window pad =
     (case stft_complex_specgrams waveforms fft_len hop_len window pad of
        Inl e \<Rightarrow> Inl e
      | Inr complex_specgrams \<Rightarrow> Inr PyNone)"

record STFT =
  self_fft_len :: nat
  self_hop_len :: nat
  self_window :: pyobj
  self_pad :: nat

definition stft_defaults ::
  "nat \<Rightarrow> nat option \<Rightarrow> nat option \<Rightarrow> pyobj \<Rightarrow> error + (nat \<times> nat \<times> pyobj)" where
  \<comment> \<open>\<open>STFT._stft_defaults\<close>; \<open>torch.hann_window(length)\<close> is a 1-D tensor of that length.\<close>
  "stft_defaults fft_len hop_len frame_len window =
     (let hop_len = (case hop_len of None \<Rightarrow> fft_len div 4 | Some h \<Rightarrow> h);
          window = (if window = PyNone
                    then (let length = (case frame_len of None \<Rightarrow> fft_len | Some l \<Rightarrow> l)
                          in Tensor [length])
                    else window)
      in case window of
           Tensor shape \<Rightarrow> Inr (fft_len, hop_len, window)
         | _ \<Rightarrow> Inl TypeError)"

definition STFT_init :: "nat \<Rightarrow> nat option \<Rightarrow> nat option \<Rightarrow> pyobj \<Rightarrow> nat \<Rightarrow> error + STFT" where
  "STFT_init fft_len hop_len frame_len window pad =
     (case stft_defaults fft_len hop_len frame_len window of
        Inl e \<Rightarrow> Inl e
      | Inr (fft_len, hop_len, window) \<Rightarrow>
          Inr \<lparr>self_fft_len = fft_len, self_hop_len = hop_len, self_window = window,
               self_pad = pad\<rparr>)"

definition STFT_forward :: "STFT \<Rightarrow> nat list \<Rightarrow> error + pyobj" where
  "STFT_forward self waveforms =
     stft waveforms (self_fft_len self) (self_hop_len self) (self_window self) (self_pad self)"

subsection \<open>Concrete inputs\<close>

text \<open>Small tensors at which the theorems below are instantiated.\<close>

definition example_spect :: "(real \<times> real) tensor4" where
  "example_spect = tensor_of 1 1 1 2 [[[[(1, 0), (0, 0)]]]]"

definition alternating_spect :: "(real \<times> real) tensor4" where
  "alternating_spect = tensor_of 1 1 1 3 [[[[(1, 0), (-1, 0), (2, 0)]]]]"

definition example_mag :: "real tensor4" where
  "example_mag = tensor_of 1 1 2 2 [[[[1, 2], [3, 4]]]]"

section \<open>Properties\<close>

subsection \<open>Mel scale\<close>

lemma logstep_pos: "0 < ln (6.4::real) / 27"
  by simp

lemma mel_to_hertz_slaney:
  "mel_to_hertz mel False =
     (if 15 \<le> mel then 1000 * exp (ln 6.4 / 27 * (mel - 15)) else 200 / 3 * mel)"
  by (simp add: mel_to_hertz_def Let_def)

lemma hertz_to_mel_slaney:
  "hertz_to_mel hz False =
     (if 1000 \<le> hz then 15 + ln (hz / 1000) / (ln 6.4 / 27) else hz * 3 / 200)"
  by (simp add: hertz_to_mel_def Let_def)

lemma mel_to_hertz_htk: "mel_to_hertz mel True = 700 * (10 powr (mel / 2595) - 1)"
  by (simp add: mel_to_hertz_def)

lemma hertz_to_mel_htk: "hertz_to_mel hz True = 2595 * log 10 (1 + hz / 700)"
  by (simp add: hertz_to_mel_def)

lemma roundtrip_htk:
  assumes "0 \<le> hz"
  shows "mel_to_hertz (hertz_to_mel hz True) True = hz"
proof -
  have pos: "0 < 1 + hz / 700" using assms by (simp add: add_pos_nonneg)
  have "10 powr (log 10 (1 + hz / 700)) = 1 + hz / 700"
    using pos by simp
  then show ?thesis
    by (simp add: mel_to_hertz_htk hertz_to_mel_htk)
qed

lemma roundtrip_slaney:
  assumes "0 \<le> hz"
  shows "mel_to_hertz (hertz_to_mel hz False) False = hz"
proof (cases "1000 \<le> hz")
  case True
  have l: "0 < ln (6.4::real)" by simp
  have "0 \<le> ln (hz / 1000)" using True by simp
  then have ge: "15 \<le> 15 + ln (hz / 1000) / (ln 6.4 / 27)"
    using l by simp
  have "exp (ln 6.4 / 27 * (ln (hz / 1000) / (ln 6.4 / 27))) = exp (ln (hz / 1000))"
    using l by simp
  also have "\<dots> = hz / 1000" using True by simp
  finally have e: "exp (ln 6.4 / 27 * (ln (hz / 1000) / (ln 6.4 / 27))) = hz / 1000" .
  show ?thesis
    using True ge e by (simp add: mel_to_hertz_slaney hertz_to_mel_slaney)
next
  case False
  then show ?thesis
    by (simp add: mel_to_hertz_slaney hertz_to_mel_slaney)
qed

text \<open>
  C5. For every frequency \<open>hz \<ge> 0\<close> and both formulas (HTK and Slaney),
  converting to mel and back gives \<open>hz\<close> again, exactly over the reals.
\<close>

theorem mel_roundtrip:
  "0 \<le> hz \<Longrightarrow> mel_to_hertz (hertz_to_mel hz htk) htk = hz"
  by (cases htk) (simp_all add: roundtrip_htk roundtrip_slaney)

theorem mel_roundtrip_witness:
  "mel_to_hertz (hertz_to_mel 440 False) False = 440
   \<and> mel_to_hertz (hertz_to_mel 4000 True) True = 4000"
  using mel_roundtrip [of 440 False] mel_roundtrip [of 4000 True] by simp

subsection \<open>Mel filterbank\<close>

lemma length_linspace: "length (linspace a b n) = n"
  by (simp add: linspace_def)

lemma nth_linspace:
  "i < n \<Longrightarrow> linspace a b n ! i = a + real i * ((b - a) / (real n - 1))"
  by (auto simp add: linspace_def)

lemma length_f_pts: "length (f_pts num_mels lo hi htk) = num_mels + 2"
  by (simp add: f_pts_def length_linspace)

lemma length_create_mel_filter:
  "length (create_mel_filter num_freqs num_mels lo hi htk) = num_freqs"
  by (simp add: create_mel_filter_def Let_def length_linspace)

lemma neg_diff_divide: "- ((a - b) / c) = (b - a) / (c::real)"
  by (simp add: minus_divide_left)

lemma create_mel_filter_nth:
  assumes "i < num_freqs" "j < num_mels"
  shows "create_mel_filter num_freqs num_mels lo hi htk ! i ! j =
     max (min ((stft_freqs num_freqs lo hi ! i - f_pts num_mels lo hi htk ! j)
                / (f_pts num_mels lo hi htk ! (j + 1) - f_pts num_mels lo hi htk ! j))
              ((f_pts num_mels lo hi htk ! (j + 2) - stft_freqs num_freqs lo hi ! i)
                / (f_pts num_mels lo hi htk ! (j + 2) - f_pts num_mels lo hi htk ! (j + 1)))) 0"
  using assms
  by (simp add: create_mel_filter_def Let_def length_linspace stft_freqs_def f_pts_def
      nth_tl nth_butlast neg_diff_divide)

lemma hertz_to_mel_strict_mono:
  assumes "0 \<le> a" "a < b"
  shows "hertz_to_mel a htk < hertz_to_mel b htk"
proof (cases htk)
  case True
  have "0 < 1 + a / 700" "0 < 1 + b / 700" "1 + a / 700 < 1 + b / 700"
    using assms by (simp_all add: add_pos_nonneg)
  then have "log 10 (1 + a / 700) < log 10 (1 + b / 700)"
    by simp
  then show ?thesis using True by (simp add: hertz_to_mel_htk)
next
  case False
  have l: "0 < ln (6.4::real)" by simp
  consider "b < 1000" | "a < 1000" "1000 \<le> b" | "1000 \<le> a" by linarith
  then show ?thesis
  proof cases
    case 1
    then show ?thesis using assms False by (simp add: hertz_to_mel_slaney)
  next
    case 2
    have "0 \<le> ln (b / 1000)" using 2 by simp
    then have "0 \<le> ln (b / 1000) / (ln 6.4 / 27)" using l by simp
    moreover have "a * 3 / 200 < 15" using 2 by simp
    moreover have "hertz_to_mel a htk = a * 3 / 200"
      using 2 False by (simp add: hertz_to_mel_slaney)
    moreover have "hertz_to_mel b htk = 15 + ln (b / 1000) / (ln 6.4 / 27)"
      using 2 False by (simp add: hertz_to_mel_slaney)
    ultimately show ?thesis by linarith
  next
    case 3
    have "ln (a / 1000) < ln (b / 1000)" using 3 assms by simp
    then have "ln (a / 1000) / (ln 6.4 / 27) < ln (b / 1000) / (ln 6.4 / 27)"
      using l by (simp add: divide_strict_right_mono)
    then show ?thesis using 3 assms False by (simp add: hertz_to_mel_slaney)
  qed
qed

lemma mel_to_hertz_strict_mono:
  assumes "a < b"
  shows "mel_to_hertz a htk < mel_to_hertz b htk"
proof (cases htk)
  case True
  have "(10::real) powr (a / 2595) < 10 powr (b / 2595)"
    using assms by simp
  then show ?thesis using True by (simp add: mel_to_hertz_htk)
next
  case False
  have l: "0 < ln (6.4::real) / 27" by simp
  consider "b < 15" | "a < 15" "15 \<le> b" | "15 \<le> a" by linarith
  then show ?thesis
  proof cases
    case 1
    then show ?thesis using assms False by (simp add: mel_to_hertz_slaney)
  next
    case 2
    have "0 \<le> ln 6.4 / 27 * (b - 15)" using 2 l by simp
    then have "1 \<le> exp (ln 6.4 / 27 * (b - 15))" by simp
    moreover have "200 / 3 * a < 1000" using 2 by simp
    moreover have "mel_to_hertz a htk = 200 / 3 * a"
      using 2 False by (simp add: mel_to_hertz_slaney)
    moreover have "mel_to_hertz b htk = 1000 * exp (ln 6.4 / 27 * (b - 15))"
      using 2 False by (simp add: mel_to_hertz_slaney)
    ultimately show ?thesis by linarith
  next
    case 3
    have "ln 6.4 / 27 * (a - 15) < ln 6.4 / 27 * (b - 15)"
      using assms l by simp
    then show ?thesis using 3 assms False by (simp add: mel_to_hertz_slaney)
  qed
qed

lemma nth_f_pts:
  "k < num_mels + 2 \<Longrightarrow>
   f_pts num_mels lo hi htk ! k =
     mel_to_hertz (hertz_to_mel lo htk
        + real k * ((hertz_to_mel hi htk - hertz_to_mel lo htk) / (1 + real num_mels))) htk"
  by (simp add: f_pts_def length_linspace nth_linspace)

lemma f_pts_increasing:
  assumes "0 \<le> lo" "lo < hi" "k < num_mels + 1"
  shows "f_pts num_mels lo hi htk ! k < f_pts num_mels lo hi htk ! (k + 1)"
proof -
  define d where "d = (hertz_to_mel hi htk - hertz_to_mel lo htk) / (1 + real num_mels)"
  have "0 < d"
    unfolding d_def
    using hertz_to_mel_strict_mono [OF assms(1,2), of htk] by (simp add: add_pos_nonneg)
  then have "hertz_to_mel lo htk + real k * d < hertz_to_mel lo htk + real (k + 1) * d"
    by (simp add: algebra_simps)
  then have "mel_to_hertz (hertz_to_mel lo htk + real k * d) htk
      < mel_to_hertz (hertz_to_mel lo htk + real (k + 1) * d) htk"
    by (rule mel_to_hertz_strict_mono)
  moreover have "f_pts num_mels lo hi htk ! k = mel_to_hertz (hertz_to_mel lo htk + real k * d) htk"
    unfolding d_def using assms(3) by (simp add: nth_f_pts)
  moreover have "f_pts num_mels lo hi htk ! (k + 1)
      = mel_to_hertz (hertz_to_mel lo htk + real (k + 1) * d) htk"
    unfolding d_def using assms(3) nth_f_pts [of "k + 1" num_mels lo hi htk] by simp
  ultimately show ?thesis by simp
qed

lemma triangle_bounds:
  fixes s l c r :: real
  assumes "l < c" "c < r"
  shows "0 \<le> max (min ((s - l) / (c - l)) ((r - s) / (r - c))) 0"
    and "max (min ((s - l) / (c - l)) ((r - s) / (r - c))) 0 \<le> 1"
    and "s \<le> l \<or> r \<le> s \<Longrightarrow> max (min ((s - l) / (c - l)) ((r - s) / (r - c))) 0 = 0"
    and "s = c \<Longrightarrow> max (min ((s - l) / (c - l)) ((r - s) / (r - c))) 0 = 1"
proof -
  show "0 \<le> max (min ((s - l) / (c - l)) ((r - s) / (r - c))) 0" by simp
  show "max (min ((s - l) / (c - l)) ((r - s) / (r - c))) 0 \<le> 1"
  proof (cases "s \<le> c")
    case True
    then have "(s - l) / (c - l) \<le> 1" using assms by simp
    then show ?thesis by (simp add: min_le_iff_disj)
  next
    case False
    then have "(r - s) / (r - c) \<le> 1" using assms by simp
    then show ?thesis by (simp add: min_le_iff_disj)
  qed
  show "max (min ((s - l) / (c - l)) ((r - s) / (r - c))) 0 = 0" if "s \<le> l \<or> r \<le> s"
  proof -
    from that have "(s - l) / (c - l) \<le> 0 \<or> (r - s) / (r - c) \<le> 0"
      using assms by (auto simp add: divide_le_0_iff)
    then show ?thesis by (auto simp add: max_def min_def)
  qed
  show "max (min ((s - l) / (c - l)) ((r - s) / (r - c))) 0 = 1" if "s = c"
    using that assms by simp
qed

lemma length_create_mel_filter_row:
  "i < num_freqs \<Longrightarrow> length (create_mel_filter num_freqs num_mels lo hi htk ! i) = num_mels"
  by (simp add: create_mel_filter_def Let_def length_linspace)

lemma create_mel_filter_entry:
  assumes "0 \<le> lo" "lo < hi" "i < num_freqs" "j < num_mels"
  shows "0 \<le> create_mel_filter num_freqs num_mels lo hi htk ! i ! j"
    and "create_mel_filter num_freqs num_mels lo hi htk ! i ! j \<le> 1"
    and "stft_freqs num_freqs lo hi ! i \<le> f_pts num_mels lo hi htk ! j
         \<or> f_pts num_mels lo hi htk ! (j + 2) \<le> stft_freqs num_freqs lo hi ! i
         \<Longrightarrow> create_mel_filter num_freqs num_mels lo hi htk ! i ! j = 0"
    and "stft_freqs num_freqs lo hi ! i = f_pts num_mels lo hi htk ! (j + 1)
         \<Longrightarrow> create_mel_filter num_freqs num_mels lo hi htk ! i ! j = 1"
proof -
  have lc: "f_pts num_mels lo hi htk ! j < f_pts num_mels lo hi htk ! (j + 1)"
    using f_pts_increasing [OF assms(1,2), of j num_mels htk] assms(4) by simp
  have cr: "f_pts num_mels lo hi htk ! (j + 1) < f_pts num_mels lo hi htk ! (j + 2)"
    using f_pts_increasing [OF assms(1,2), of "j + 1" num_mels htk] assms(4)
    by (simp add: numeral_2_eq_2)
  note e = create_mel_filter_nth [OF assms(3,4), of lo hi htk]
  show "0 \<le> create_mel_filter num_freqs num_mels lo hi htk ! i ! j"
    unfolding e by (rule triangle_bounds(1) [OF lc cr])
  show "create_mel_filter num_freqs num_mels lo hi htk ! i ! j \<le> 1"
    unfolding e by (rule triangle_bounds(2) [OF lc cr])
  show "create_mel_filter num_freqs num_mels lo hi htk ! i ! j = 0"
    if "stft_freqs num_freqs lo hi ! i \<le> f_pts num_mels lo hi htk ! j
         \<or> f_pts num_mels lo hi htk ! (j + 2) \<le> stft_freqs num_freqs lo hi ! i"
    unfolding e using that by (rule triangle_bounds(3) [OF lc cr])
  show "create_mel_filter num_freqs num_mels lo hi htk ! i ! j = 1"
    if "stft_freqs num_freqs lo hi ! i = f_pts num_mels lo hi htk ! (j + 1)"
    unfolding e using that by (rule triangle_bounds(4) [OF lc cr])
qed

text \<open>
  C3 (amended). Under the preconditions (\<open>0 \<le> min_freq < max_freq\<close>; the index bounds
  give \<open>num_mels \<ge> 1\<close>), every entry of a column is non-negative and at most 1, is zero
  at every frequency sample outside the column's two adjacent boundary frequencies
  \<open>f_pts[j]\<close> and \<open>f_pts[j+2]\<close>, and is exactly 1 at a sample whose frequency is the
  column's centre frequency \<open>f_pts[j+1]\<close>. The samples are equally spaced between
  \<open>min_freq\<close> and \<open>max_freq\<close>, so a column need not have a sample at its centre.
\<close>

theorem mel_filter_triangle:
  assumes "0 \<le> min_freq" "min_freq < max_freq" "i < num_freqs" "j < num_mels"
  shows "0 \<le> create_mel_filter num_freqs num_mels min_freq max_freq htk ! i ! j
    \<and> create_mel_filter num_freqs num_mels min_freq max_freq htk ! i ! j \<le> 1
    \<and> (stft_freqs num_freqs min_freq max_freq ! i \<le> f_pts num_mels min_freq max_freq htk ! j
         \<or> f_pts num_mels min_freq max_freq htk ! (j + 2) \<le> stft_freqs num_freqs min_freq max_freq ! i
       \<longrightarrow> create_mel_filter num_freqs num_mels min_freq max_freq htk ! i ! j = 0)
    \<and> (stft_freqs num_freqs min_freq max_freq ! i = f_pts num_mels min_freq max_freq htk ! (j + 1)
       \<longrightarrow> create_mel_filter num_freqs num_mels min_freq max_freq htk ! i ! j = 1)"
  using create_mel_filter_entry [OF assms, of htk] by blast

lemma upt_0_3: "[0..<3] = [0, Suc 0, 2]"
  by (simp add: numeral_3_eq_3 numeral_2_eq_2 upt_conv_Cons)

lemma stft_freqs_3: "stft_freqs 3 0 1000 = [0, 500, 1000]"
  by (simp add: stft_freqs_def linspace_def upt_0_3)

lemma f_pts_1: "f_pts 1 0 1000 False = [0, 500, 1000]"
  by (simp add: f_pts_def linspace_def upt_0_3 hertz_to_mel_slaney mel_to_hertz_slaney)

theorem mel_filter_triangle_witness:
  "create_mel_filter 3 1 0 1000 False ! 1 ! 0 = 1
   \<and> create_mel_filter 3 1 0 1000 False ! 0 ! 0 = 0
   \<and> create_mel_filter 3 1 0 1000 False ! 2 ! 0 = 0"
proof -
  have centre: "stft_freqs 3 0 1000 ! 1 = f_pts 1 0 1000 False ! (0 + 1)"
    unfolding stft_freqs_3 f_pts_1 by simp
  have left: "stft_freqs 3 0 1000 ! 0 \<le> f_pts 1 0 1000 False ! 0"
    unfolding stft_freqs_3 f_pts_1 by simp
  have right: "f_pts 1 0 1000 False ! (0 + 2) \<le> stft_freqs 3 0 1000 ! 2"
    unfolding stft_freqs_3 f_pts_1 by simp
  have "create_mel_filter 3 1 0 1000 False ! 1 ! 0 = 1"
    using mel_filter_triangle [of 0 1000 1 3 0 1 False] centre by simp
  moreover have "create_mel_filter 3 1 0 1000 False ! 0 ! 0 = 0"
    using mel_filter_triangle [of 0 1000 0 3 0 1 False] left by simp
  moreover have "create_mel_filter 3 1 0 1000 False ! 2 ! 0 = 0"
    using mel_filter_triangle [of 0 1000 2 3 0 1 False] right by simp
  ultimately show ?thesis by simp
qed

lemma upt_0_2: "[0..<2] = [0, Suc 0]"
  by (simp add: numeral_2_eq_2 upt_conv_Cons)

text \<open>
  With two frequency samples and one mel band between 0 and 1000 Hz (Slaney formula) the
  samples are 0 and 1000 Hz, the boundaries of the only column are 0, 500 and 1000 Hz:
  both samples lie on the boundary of the triangle, the column is zero, and its maximum
  is 0, although all preconditions hold.
\<close>

theorem mel_filter_peak_counterexample:
  "create_mel_filter 2 1 0 1000 False = [[0], [0]]"
  by (simp add: create_mel_filter_def Let_def linspace_def hertz_to_mel_slaney mel_to_hertz_slaney upt_0_2)
text \<open>
  C9. Where \<open>0 \<le> min_freq < max_freq\<close> (so that the boundary frequencies increase
  strictly), every entry of the matrix returned by \<open>create_mel_filter\<close> lies in the
  closed interval \<open>[0, 1]\<close>.
\<close>

theorem mel_filter_unit_interval:
  assumes "0 \<le> min_freq" "min_freq < max_freq"
  shows "\<forall>row \<in> set (create_mel_filter num_freqs num_mels min_freq max_freq htk).
           \<forall>x \<in> set row. 0 \<le> x \<and> x \<le> 1"
proof (intro ballI)
  fix row x
  assume r: "row \<in> set (create_mel_filter num_freqs num_mels min_freq max_freq htk)"
    and x: "x \<in> set row"
  from r obtain i where i: "i < num_freqs"
    and row: "row = create_mel_filter num_freqs num_mels min_freq max_freq htk ! i"
    by (auto simp add: in_set_conv_nth length_create_mel_filter)
  from x obtain j where j: "j < num_mels" and xj: "x = row ! j"
    by (auto simp add: in_set_conv_nth row length_create_mel_filter_row [OF i])
  show "0 \<le> x \<and> x \<le> 1"
    using create_mel_filter_entry(1,2) [OF assms i j, of htk] by (simp add: xj row)
qed

theorem mel_filter_unit_interval_witness:
  "0 \<le> create_mel_filter 3 1 0 1000 False ! 1 ! 0
   \<and> create_mel_filter 3 1 0 1000 False ! 1 ! 0 \<le> 1"
proof -
  have "create_mel_filter 3 1 0 1000 False ! 1 \<in> set (create_mel_filter 3 1 0 1000 False)"
    by (simp add: length_create_mel_filter)
  moreover have "create_mel_filter 3 1 0 1000 False ! 1 ! 0
      \<in> set (create_mel_filter 3 1 0 1000 False ! 1)"
    by (simp add: length_create_mel_filter_row)
  ultimately show ?thesis
    using mel_filter_unit_interval [of 0 1000 3 1 False] by simp
qed

subsection \<open>Phase vocoder\<close>

lemma arange_pos:
  "0 < rate \<Longrightarrow>
   arange 0 (real n) rate = Inr (map (\<lambda>k. real k * rate) [0..<nat \<lceil>real n / rate\<rceil>])"
  by (simp add: arange_def not_less [symmetric])

lemma norm_last_nonneg: "0 \<le> norm_last z"
  by (simp add: norm_last_def)

lemma norm_last_polar: "0 \<le> m \<Longrightarrow> norm_last (m * cos a, m * sin a) = m"
proof -
  assume m: "0 \<le> m"
  have "(m * cos a)\<^sup>2 + (m * sin a)\<^sup>2 = m\<^sup>2 * ((cos a)\<^sup>2 + (sin a)\<^sup>2)"
    by (simp only: power_mult_distrib distrib_left)
  also have "\<dots> = m\<^sup>2" by simp
  finally show ?thesis using m by (simp add: norm_last_def)
qed

lemma phase_vocoder_explicit:
  assumes "0 < rate" "length phi_advance = dim2 spect \<or> length phi_advance = 1"
  shows "\<exists>out. phase_vocoder spect rate phi_advance = Inr out
     \<and> dim0 out = dim0 spect \<and> dim1 out = dim1 spect \<and> dim2 out = dim2 spect
     \<and> dim3 out = nat \<lceil>real (dim3 spect) / rate\<rceil>
     \<and> (\<forall>b c f k. k < dim3 out \<longrightarrow>
           elem out b c f k =
             (interpolated_mag spect rate b c f k
                * cos (\<Sum>j \<le> k. phase_increment spect rate (phi_at phi_advance f) b c f j),
              interpolated_mag spect rate b c f k
                * sin (\<Sum>j \<le> k. phase_increment spect rate (phi_at phi_advance f) b c f j)))"
  using assms
  apply (simp add: phase_vocoder_def arange_pos Let_def interpolated_mag_def phi_at_def)
  apply (intro allI impI conjI)
     apply (intro disjI2 arg_cong [where f = cos] sum.cong refl, simp add: phase_increment_def Let_def)
    apply (intro disjI2 arg_cong [where f = sin] sum.cong refl, simp add: phase_increment_def Let_def)
   apply (intro disjI2 arg_cong [where f = cos] sum.cong refl, simp add: phase_increment_def Let_def)
  apply (intro disjI2 arg_cong [where f = sin] sum.cong refl, simp add: phase_increment_def Let_def)
  done

lemma interpolated_mag_nonneg: "0 \<le> interpolated_mag spect rate b c f k"
proof -
  have "0 \<le> frac (real k * rate)" "0 \<le> 1 - frac (real k * rate)"
    using frac_lt_1 [of "real k * rate"] by simp_all
  then show ?thesis
    by (simp add: interpolated_mag_def Let_def norm_last_nonneg)
qed

text \<open>
  C10. For every input spectrogram, every rate \<open>> 0\<close> and a phase-advance table with one
  row per bin (or a single row), \<open>phase_vocoder\<close> returns, and each output element has
  Euclidean norm \<open>alpha * m1 + (1 - alpha) * m0\<close>, where \<open>alpha\<close> is the fractional part
  of the time step \<open>k * rate\<close> and \<open>m0\<close>, \<open>m1\<close> are the norms of the two bracketing
  frames of the zero-padded input; that norm is non-negative, and neither the table nor
  any accumulated phase occurs in it.
\<close>

theorem phase_vocoder_magnitude:
  assumes "0 < rate" "length phi_advance = dim2 spect \<or> length phi_advance = 1"
  shows "\<exists>out. phase_vocoder spect rate phi_advance = Inr out
     \<and> (\<forall>b c f k. k < dim3 out \<longrightarrow>
           norm_last (elem out b c f k)
             = frac (real k * rate) * norm_last (pad_time spect b c f (nat \<lfloor>real k * rate\<rfloor> + 1))
               + (1 - frac (real k * rate)) * norm_last (pad_time spect b c f (nat \<lfloor>real k * rate\<rfloor>))
           \<and> 0 \<le> norm_last (elem out b c f k))"
proof -
  from phase_vocoder_explicit [OF assms] obtain out where
    out: "phase_vocoder spect rate phi_advance = Inr out"
    and el: "\<And>b c f k. k < dim3 out \<Longrightarrow>
           elem out b c f k =
             (interpolated_mag spect rate b c f k
                * cos (\<Sum>j \<le> k. phase_increment spect rate (phi_at phi_advance f) b c f j),
              interpolated_mag spect rate b c f k
                * sin (\<Sum>j \<le> k. phase_increment spect rate (phi_at phi_advance f) b c f j))"
    by blast
  have idx: "nat \<lfloor>real k * rate + 1\<rfloor> = nat \<lfloor>real k * rate\<rfloor> + 1" for k
  proof -
    have "0 \<le> real k * rate" using assms(1) by simp
    then have "0 \<le> \<lfloor>real k * rate\<rfloor>" by simp
    then show ?thesis by (simp add: nat_add_distrib)
  qed
  have "norm_last (elem out b c f k)
         = frac (real k * rate) * norm_last (pad_time spect b c f (nat \<lfloor>real k * rate\<rfloor> + 1))
           + (1 - frac (real k * rate)) * norm_last (pad_time spect b c f (nat \<lfloor>real k * rate\<rfloor>))
       \<and> 0 \<le> norm_last (elem out b c f k)" if "k < dim3 out" for b c f k
  proof -
    have "norm_last (elem out b c f k) = interpolated_mag spect rate b c f k"
      unfolding el [OF that] by (rule norm_last_polar) (rule interpolated_mag_nonneg)
    moreover have "interpolated_mag spect rate b c f k
        = frac (real k * rate) * norm_last (pad_time spect b c f (nat \<lfloor>real k * rate\<rfloor> + 1))
           + (1 - frac (real k * rate)) * norm_last (pad_time spect b c f (nat \<lfloor>real k * rate\<rfloor>))"
      unfolding interpolated_mag_def Let_def idx by simp
    ultimately show ?thesis using interpolated_mag_nonneg [of spect rate b c f k] by simp
  qed
  with out show ?thesis by blast
qed

theorem phase_vocoder_magnitude_witness:
  "\<exists>out. phase_vocoder example_spect (1 / 2) [0] = Inr out
     \<and> norm_last (elem out 0 0 0 1) = 1 / 2"
proof -
  have ok: "length [0::real] = dim2 example_spect \<or> length [0::real] = 1" by simp
  have pos: "(0::real) < 1 / 2" by simp
  from phase_vocoder_explicit [OF pos ok] obtain out' where
    o': "phase_vocoder example_spect (1 / 2) [0] = Inr out'" and d: "dim3 out' = 4"
    by (auto simp add: example_spect_def tensor_of_def)
  from phase_vocoder_magnitude [OF pos ok] obtain out where
    o: "phase_vocoder example_spect (1 / 2) [0] = Inr out"
    and m: "\<And>b c f k. k < dim3 out \<Longrightarrow>
           norm_last (elem out b c f k)
             = frac (real k * (1 / 2)) * norm_last (pad_time example_spect b c f (nat \<lfloor>real k * (1 / 2)\<rfloor> + 1))
               + (1 - frac (real k * (1 / 2))) * norm_last (pad_time example_spect b c f (nat \<lfloor>real k * (1 / 2)\<rfloor>))"
    by blast
  have "out = out'" using o o' by simp
  then have "1 < dim3 out" using d by simp
  from m [OF this, of 0 0 0] have "norm_last (elem out 0 0 0 1) = 1 / 2"
    by (simp add: frac_def pad_time_def example_spect_def tensor_of_def norm_last_def)
  with o show ?thesis by blast
qed

lemma card_time_steps:
  assumes "0 < rate"
  shows "card {k::nat. real k * rate < real n} = nat \<lceil>real n / rate\<rceil>"
proof -
  have "real k * rate < real n \<longleftrightarrow> k < nat \<lceil>real n / rate\<rceil>" for k
  proof -
    have "real k * rate < real n \<longleftrightarrow> real k < real n / rate"
      using assms by (simp add: pos_less_divide_eq)
    also have "\<dots> \<longleftrightarrow> k < nat \<lceil>real n / rate\<rceil>"
      by (simp only: not_le [symmetric] nat_ceiling_le_eq)
    finally show ?thesis .
  qed
  then have "{k::nat. real k * rate < real n} = {..<nat \<lceil>real n / rate\<rceil>}"
    by auto
  then show ?thesis by simp
qed

lemma frames_integer_rate:
  fixes n r :: nat
  assumes "0 < r" "1 \<le> n"
  shows "int (nat \<lceil>real n / real r\<rceil>) = \<lfloor>(real n - 1) / real r\<rfloor> + 1"
proof -
  define q where "q = \<lfloor>(real n - 1) / real r\<rfloor>"
  have q0: "0 \<le> q" unfolding q_def using assms by simp
  have lo: "of_int q \<le> (real n - 1) / real r" unfolding q_def by simp
  have hi: "(real n - 1) / real r < of_int q + 1" unfolding q_def by linarith
  have "of_int q * real r \<le> real n - 1"
    using lo assms(1) by (simp add: pos_le_divide_eq)
  then have "of_int q * real r < real n" by simp
  then have a: "of_int (q + 1) - 1 < real n / real r"
    using assms(1) by (simp add: pos_less_divide_eq)
  have "real n - 1 < (of_int q + 1) * real r"
    using hi assms(1) by (simp add: pos_divide_less_eq)
  then have "real_of_int (int n - 1) < real_of_int ((q + 1) * int r)"
    by simp
  then have "int n - 1 < (q + 1) * int r" by (simp only: of_int_less_iff)
  then have "int n \<le> (q + 1) * int r" by simp
  then have "real_of_int (int n) \<le> real_of_int ((q + 1) * int r)" by (simp only: of_int_le_iff)
  then have "real n \<le> of_int (q + 1) * real r" by simp
  then have b: "real n / real r \<le> of_int (q + 1)"
    using assms(1) by (simp add: pos_divide_le_eq)
  have "\<lceil>real n / real r\<rceil> = q + 1"
    using a b by (rule ceiling_unique)
  then show ?thesis using q0 by (simp add: q_def)
qed

text \<open>
  C2 (amended). For every rate \<open>> 0\<close>, \<open>phase_vocoder\<close> returns a spectrogram with exactly
  \<open>\<lceil>num_frames / rate\<rceil>\<close> frames, which is the number of time indices
  \<open>t = 0, rate, 2 * rate, \<dots>\<close> with \<open>t < num_frames\<close>; for a whole-number rate and
  \<open>num_frames \<ge> 1\<close> this is \<open>\<lfloor>(num_frames - 1) / rate\<rfloor> + 1\<close>.
\<close>

theorem phase_vocoder_frame_count:
  assumes "0 < rate" "length phi_advance = dim2 spect \<or> length phi_advance = 1"
  shows "\<exists>out. phase_vocoder spect rate phi_advance = Inr out
     \<and> dim3 out = nat \<lceil>real (dim3 spect) / rate\<rceil>
     \<and> dim3 out = card {k::nat. real k * rate < real (dim3 spect)}
     \<and> (\<forall>r::nat. rate = real r \<and> 1 \<le> dim3 spect
           \<longrightarrow> int (dim3 out) = \<lfloor>(real (dim3 spect) - 1) / rate\<rfloor> + 1)"
proof -
  from phase_vocoder_explicit [OF assms] obtain out where
    out: "phase_vocoder spect rate phi_advance = Inr out"
    and d: "dim3 out = nat \<lceil>real (dim3 spect) / rate\<rceil>"
    by blast
  have "int (dim3 out) = \<lfloor>(real (dim3 spect) - 1) / rate\<rfloor> + 1"
    if "rate = real r" "1 \<le> dim3 spect" for r :: nat
  proof -
    have "0 < r" using assms(1) that(1) by simp
    from frames_integer_rate [OF this that(2)] show ?thesis
      by (simp add: d that(1))
  qed
  with out d card_time_steps [OF assms(1), of "dim3 spect"] show ?thesis by auto
qed

theorem phase_vocoder_frame_count_witness:
  "\<exists>out. phase_vocoder example_spect 2 [0] = Inr out \<and> dim3 out = 1"
  using phase_vocoder_frame_count [of 2 "[0]" example_spect]
  by (auto simp add: example_spect_def tensor_of_def)

text \<open>
  The frame count that C2 states, \<open>\<lfloor>(num_frames - 1) / rate\<rfloor> + 1\<close>, fails for a
  fractional rate: with 2 input frames and \<open>rate = 1.5\<close> the time steps are 0 and 1.5,
  both below 2, so the output has 2 frames, while the formula gives 1.
\<close>

theorem phase_vocoder_frame_count_counterexample:
  "\<exists>out. phase_vocoder example_spect (3 / 2) [0] = Inr out \<and> dim3 out = 2
     \<and> int (dim3 out) \<noteq> \<lfloor>(real (dim3 example_spect) - 1) / (3 / 2)\<rfloor> + 1"
  by (simp add: phase_vocoder_def arange_def example_spect_def tensor_of_def Let_def)

lemma torch_round_of_int: "torch_round (of_int m) = of_int m"
  by (simp add: torch_round_def Let_def)

lemma norm_last_cos_angle: "norm_last z * cos (angle z) = fst z"
proof -
  obtain x y where z: "z = (x, y)" by (cases z)
  have pos: "sqrt (x\<^sup>2 + y\<^sup>2) * (1 / sqrt (1 + (y / x)\<^sup>2)) = \<bar>x\<bar>" if "x \<noteq> 0"
  proof -
    have "1 + (y / x)\<^sup>2 = (x\<^sup>2 + y\<^sup>2) / x\<^sup>2"
      using that by (simp add: power_divide add_divide_distrib)
    then have "sqrt (1 + (y / x)\<^sup>2) = sqrt (x\<^sup>2 + y\<^sup>2) / \<bar>x\<bar>"
      by (simp add: real_sqrt_divide)
    moreover have "0 < sqrt (x\<^sup>2 + y\<^sup>2)"
      using that by (simp add: sum_power2_gt_zero_iff)
    ultimately show ?thesis using that by simp
  qed
  show ?thesis
  proof (cases "x = 0")
    case True
    then show ?thesis by (simp add: z angle_def atan2_def norm_last_def)
  next
    case False
    then show ?thesis
      using pos [OF False]
      by (auto simp add: z angle_def atan2_def norm_last_def cos_arctan)
  qed
qed

lemma norm_last_sin_angle: "norm_last z * sin (angle z) = snd z"
proof -
  obtain x y where z: "z = (x, y)" by (cases z)
  have pos: "sqrt (x\<^sup>2 + y\<^sup>2) * (y / x / sqrt (1 + (y / x)\<^sup>2)) = y * \<bar>x\<bar> / x" if "x \<noteq> 0"
  proof -
    have "1 + (y / x)\<^sup>2 = (x\<^sup>2 + y\<^sup>2) / x\<^sup>2"
      using that by (simp add: power_divide add_divide_distrib)
    then have "sqrt (1 + (y / x)\<^sup>2) = sqrt (x\<^sup>2 + y\<^sup>2) / \<bar>x\<bar>"
      by (simp add: real_sqrt_divide)
    moreover have "0 < sqrt (x\<^sup>2 + y\<^sup>2)"
      using that by (simp add: sum_power2_gt_zero_iff)
    ultimately show ?thesis using that by simp
  qed
  show ?thesis
  proof (cases "x = 0")
    case True
    then show ?thesis by (simp add: z angle_def atan2_def norm_last_def)
  next
    case False
    then show ?thesis
      using pos [OF False]
      by (auto simp add: z angle_def atan2_def norm_last_def sin_arctan)
  qed
qed

lemma phi_at_nth: "length phi_advance = n \<Longrightarrow> f < n \<Longrightarrow> phi_at phi_advance f = phi_advance ! f"
  by (auto simp add: phi_at_def)

lemma cos_add_2pi_int: "cos (a + 2 * pi * of_int m) = cos a"
  by (simp add: cos_add)

lemma sin_add_2pi_int: "sin (a + 2 * pi * of_int m) = sin a"
  by (simp add: sin_add)

lemma rate_one_increment:
  assumes "j + 1 < dim3 spect"
    and "angle (elem spect b c f (j + 1)) - angle (elem spect b c f j) - phi = 2 * pi * of_int m"
  shows "phase_increment spect 1 phi b c f (j + 1) = phi"
proof -
  have "2 * pi * real_of_int m / (2 * pi) = of_int m" by simp
  then show ?thesis
    using assms
    by (simp add: phase_increment_def Let_def pad_time_def torch_round_of_int nat_add_distrib)
qed

lemma rate_one_phase_acc:
  assumes "\<And>t. t + 1 < dim3 spect \<Longrightarrow>
      \<exists>m::int. angle (elem spect b c f (t + 1)) - angle (elem spect b c f t) - phi = 2 * pi * of_int m"
    and "k < dim3 spect"
  shows "\<exists>M::int. (\<Sum>j \<le> k. phase_increment spect 1 phi b c f j)
            = angle (elem spect b c f k) + 2 * pi * of_int M"
  using assms(2)
proof (induction k)
  case 0
  have "(\<Sum>j \<le> 0. phase_increment spect 1 phi b c f j) = angle (elem spect b c f 0) + 2 * pi * of_int 0"
    by (simp add: phase_increment_def)
  then show ?case by blast
next
  case (Suc k)
  then have k: "k + 1 < dim3 spect" by simp
  from Suc obtain M :: int where
    M: "(\<Sum>j \<le> k. phase_increment spect 1 phi b c f j) = angle (elem spect b c f k) + 2 * pi * of_int M"
    by auto
  from assms(1) [OF k] obtain m :: int where
    m: "angle (elem spect b c f (k + 1)) - angle (elem spect b c f k) - phi = 2 * pi * of_int m"
    by blast
  have inc: "phase_increment spect 1 phi b c f (k + 1) = phi"
    by (rule rate_one_increment [OF k m])
  have "(\<Sum>j \<le> Suc k. phase_increment spect 1 phi b c f j)
      = angle (elem spect b c f k) + 2 * pi * of_int M + phi"
    using M inc by simp
  also have "\<dots> = angle (elem spect b c f (Suc k)) + 2 * pi * of_int (M - m)"
    using m by (simp add: algebra_simps)
  finally show ?case by blast
qed

lemma rate_one_mag:
  "k < dim3 spect \<Longrightarrow> interpolated_mag spect 1 b c f k = norm_last (elem spect b c f k)"
  by (simp add: interpolated_mag_def Let_def pad_time_def frac_def)

text \<open>
  C6. With \<open>rate = 1\<close>, \<open>phase_vocoder\<close> returns a spectrogram of the shape of its input
  (the same frame count). In a bin where the phase advance from each frame to the next
  equals the bin's entry of the phase-advance table, up to a multiple of \<open>2\<pi>\<close> (the
  phases are angles in \<open>(-\<pi>, \<pi>]\<close>), every output element equals the input element, and
  so do its magnitude and its phase.
\<close>

theorem phase_vocoder_identity:
  assumes "length phi_advance = dim2 spect"
  shows "\<exists>out. phase_vocoder spect 1 phi_advance = Inr out
     \<and> dim0 out = dim0 spect \<and> dim1 out = dim1 spect \<and> dim2 out = dim2 spect
     \<and> dim3 out = dim3 spect
     \<and> (\<forall>b c. \<forall>f < dim2 spect.
           (\<forall>t. t + 1 < dim3 spect \<longrightarrow>
              (\<exists>m::int. angle (elem spect b c f (t + 1)) - angle (elem spect b c f t)
                          - phi_advance ! f = 2 * pi * of_int m))
           \<longrightarrow> (\<forall>t < dim3 spect. elem out b c f t = elem spect b c f t
                   \<and> norm_last (elem out b c f t) = norm_last (elem spect b c f t)
                   \<and> angle (elem out b c f t) = angle (elem spect b c f t)))"
proof -
  have ok: "length phi_advance = dim2 spect \<or> length phi_advance = 1"
    using assms by simp
  from phase_vocoder_explicit [OF zero_less_one ok] obtain out where
    out: "phase_vocoder spect 1 phi_advance = Inr out"
    and dims: "dim0 out = dim0 spect" "dim1 out = dim1 spect" "dim2 out = dim2 spect"
    and d3: "dim3 out = dim3 spect"
    and el: "\<And>b c f k. k < dim3 out \<Longrightarrow>
           elem out b c f k =
             (interpolated_mag spect 1 b c f k
                * cos (\<Sum>j \<le> k. phase_increment spect 1 (phi_at phi_advance f) b c f j),
              interpolated_mag spect 1 b c f k
                * sin (\<Sum>j \<le> k. phase_increment spect 1 (phi_at phi_advance f) b c f j))"
    by auto
  have same: "elem out b c f t = elem spect b c f t"
    if f: "f < dim2 spect"
      and adv: "\<And>t. t + 1 < dim3 spect \<Longrightarrow>
        \<exists>m::int. angle (elem spect b c f (t + 1)) - angle (elem spect b c f t)
                   - phi_advance ! f = 2 * pi * of_int m"
      and t: "t < dim3 spect"
    for b c f t
  proof -
    have p: "phi_at phi_advance f = phi_advance ! f"
      by (rule phi_at_nth [OF assms f])
    from rate_one_phase_acc [of spect b c f "phi_advance ! f" t, OF adv t] obtain M :: int where
      M: "(\<Sum>j \<le> t. phase_increment spect 1 (phi_advance ! f) b c f j)
            = angle (elem spect b c f t) + 2 * pi * of_int M"
      by blast
    have "elem out b c f t =
        (norm_last (elem spect b c f t) * cos (angle (elem spect b c f t)),
         norm_last (elem spect b c f t) * sin (angle (elem spect b c f t)))"
      using t by (simp add: el d3 p M rate_one_mag cos_add_2pi_int sin_add_2pi_int)
    then show ?thesis
      by (simp add: norm_last_cos_angle norm_last_sin_angle)
  qed
  show ?thesis
    using out dims d3 same by (intro exI [of _ out]) auto
qed

lemma angle_values: "angle (1, 0) = 0" "angle (-1, 0) = pi" "angle (2, 0) = 0"
  by (simp_all add: angle_def atan2_def)

theorem phase_vocoder_identity_witness:
  "\<exists>out. phase_vocoder alternating_spect 1 [pi] = Inr out \<and> dim3 out = 3
     \<and> elem out 0 0 0 0 = (1, 0) \<and> elem out 0 0 0 1 = (-1, 0) \<and> elem out 0 0 0 2 = (2, 0)"
proof -
  have len: "length [pi] = dim2 alternating_spect"
    by (simp add: alternating_spect_def tensor_of_def)
  have adv: "\<exists>m::int. angle (elem alternating_spect 0 0 0 (t + 1))
        - angle (elem alternating_spect 0 0 0 t) - [pi] ! 0 = 2 * pi * of_int m"
    if "t + 1 < dim3 alternating_spect" for t
  proof -
    from that have "t = 0 \<or> t = 1"
      by (auto simp add: alternating_spect_def tensor_of_def)
    then show ?thesis
    proof
      assume "t = 0"
      then have "angle (elem alternating_spect 0 0 0 (t + 1))
        - angle (elem alternating_spect 0 0 0 t) - [pi] ! 0 = 2 * pi * of_int 0"
        by (simp add: alternating_spect_def tensor_of_def angle_values)
      then show ?thesis by blast
    next
      assume "t = 1"
      then have "angle (elem alternating_spect 0 0 0 (t + 1))
        - angle (elem alternating_spect 0 0 0 t) - [pi] ! 0 = 2 * pi * of_int (- 1)"
        by (simp add: alternating_spect_def tensor_of_def angle_values)
      then show ?thesis by blast
    qed
  qed
  from phase_vocoder_identity [OF len] obtain out where
    o: "phase_vocoder alternating_spect 1 [pi] = Inr out"
    and d: "dim3 out = dim3 alternating_spect"
    and same: "\<forall>b c. \<forall>f < dim2 alternating_spect.
           (\<forall>t. t + 1 < dim3 alternating_spect \<longrightarrow>
              (\<exists>m::int. angle (elem alternating_spect b c f (t + 1)) - angle (elem alternating_spect b c f t)
                          - [pi] ! f = 2 * pi * of_int m))
           \<longrightarrow> (\<forall>t < dim3 alternating_spect. elem out b c f t = elem alternating_spect b c f t
                   \<and> norm_last (elem out b c f t) = norm_last (elem alternating_spect b c f t)
                   \<and> angle (elem out b c f t) = angle (elem alternating_spect b c f t))"
    by blast
  have f0: "0 < dim2 alternating_spect" by (simp add: alternating_spect_def tensor_of_def)
  from same f0 adv have "\<forall>t < dim3 alternating_spect. elem out 0 0 0 t = elem alternating_spect 0 0 0 t"
    by blast
  then have "elem out 0 0 0 0 = (1, 0) \<and> elem out 0 0 0 1 = (-1, 0) \<and> elem out 0 0 0 2 = (2, 0)"
    by (simp add: alternating_spect_def tensor_of_def)
  with o d show ?thesis by (auto simp add: alternating_spect_def tensor_of_def)
qed

subsection \<open>Filterbank application\<close>

lemma length_identity_matrix: "length (identity_matrix n) = n"
  by (simp add: identity_matrix_def)

lemma num_columns_identity_matrix: "num_columns (identity_matrix n) = n"
  by (cases n) (simp_all add: identity_matrix_def num_columns_def upt_conv_Cons del: upt_Suc)

lemma identity_matrix_nth:
  "k < n \<Longrightarrow> j < n \<Longrightarrow> identity_matrix n ! k ! j = (if k = j then 1 else 0)"
  by (simp add: identity_matrix_def)

lemma sum_identity_column:
  assumes "j < n"
  shows "(\<Sum>k < n. g k * (identity_matrix n ! k ! j)) = (g j :: real)"
proof -
  have "(\<Sum>k < n. g k * (identity_matrix n ! k ! j)) = (\<Sum>k < n. if k = j then g k else 0)"
    using assms by (intro sum.cong refl) (simp add: identity_matrix_nth)
  also have "\<dots> = g j" using assms by simp
  finally show ?thesis .
qed

lemma apply_filterbank_identity_eq:
  "apply_filterbank x (identity_matrix (dim2 x)) =
     Inr \<lparr>dim0 = dim0 x, dim1 = dim1 x, dim2 = dim2 x, dim3 = dim3 x,
          elem = (\<lambda>b c j i. \<Sum>k < dim2 x. elem x b c k i * (identity_matrix (dim2 x) ! k ! j))\<rparr>"
  by (simp add: apply_filterbank_def matmul_def transpose_last_def length_identity_matrix
      num_columns_identity_matrix)

text \<open>
  C7. For every magnitude spectrogram, \<open>apply_filterbank\<close> with the identity matrix of
  the size of the frequency axis returns a tensor of the same shape (batch, channel,
  frequency and time axes) with the same element at every index.
\<close>

theorem apply_identity_filterbank:
  "\<exists>out. apply_filterbank mag_specgrams (identity_matrix (dim2 mag_specgrams)) = Inr out
     \<and> same_tensor out mag_specgrams"
  by (simp add: apply_filterbank_identity_eq same_tensor_def sum_identity_column)

theorem apply_identity_filterbank_witness:
  "\<exists>out. apply_filterbank example_mag (identity_matrix 2) = Inr out
     \<and> dim2 out = 2 \<and> dim3 out = 2
     \<and> elem out 0 0 0 0 = 1 \<and> elem out 0 0 0 1 = 2 \<and> elem out 0 0 1 0 = 3 \<and> elem out 0 0 1 1 = 4"
proof -
  have d: "dim2 example_mag = 2" by (simp add: example_mag_def tensor_of_def)
  from apply_identity_filterbank [of example_mag] obtain out where
    o: "apply_filterbank example_mag (identity_matrix 2) = Inr out"
    and s: "same_tensor out example_mag"
    unfolding d by blast
  from s have "dim2 out = 2 \<and> dim3 out = 2
     \<and> elem out 0 0 0 0 = 1 \<and> elem out 0 0 0 1 = 2 \<and> elem out 0 0 1 0 = 3 \<and> elem out 0 0 1 1 = 4"
    by (simp add: same_tensor_def example_mag_def tensor_of_def)
  with o show ?thesis by blast
qed

subsection \<open>The phase-advance table of \<open>StretchSpecTime\<close>\<close>

lemma nth_linspace_table:
  "k < n \<Longrightarrow> linspace 0 b n ! k = b * real k / (real n - 1)"
  by (simp add: nth_linspace)

text \<open>
  C4 (amended). The phase-advance table built when the layer is constructed is
  \<open>linspace(0, \<pi> * hop_len, num_bins)\<close>, a column of \<open>num_bins\<close> entries; for
  \<open>num_bins \<ge> 2\<close> its entry at bin \<open>k\<close> is \<open>\<pi> * hop_len * k / (num_bins - 1)\<close>, so that
  the last bin holds \<open>\<pi> * hop_len\<close>; a table of one bin holds 0.
\<close>

theorem phi_advance_table:
  "self_phi_advance (StretchSpecTime_init rate hop_len num_bins)
     = linspace 0 (pi * of_int hop_len) num_bins
   \<and> length (self_phi_advance (StretchSpecTime_init rate hop_len num_bins)) = num_bins
   \<and> (2 \<le> num_bins \<longrightarrow>
        (\<forall>k < num_bins. self_phi_advance (StretchSpecTime_init rate hop_len num_bins) ! k
          = pi * of_int hop_len * real k / (real num_bins - 1)))
   \<and> (num_bins = 1 \<longrightarrow> self_phi_advance (StretchSpecTime_init rate hop_len num_bins) = [0])"
  by (simp add: StretchSpecTime_init_def length_linspace nth_linspace_table linspace_def)

theorem phi_advance_table_witness:
  "self_phi_advance (StretchSpecTime_init 1 512 1025) ! 1 = pi / 2
   \<and> self_phi_advance (StretchSpecTime_init 1 512 1025) ! 1024 = pi * 512"
proof -
  have "(2::nat) \<le> 1025" by simp
  with phi_advance_table [of 1 512 1025]
  have t: "\<forall>k < 1025. self_phi_advance (StretchSpecTime_init 1 512 1025) ! k
          = pi * of_int 512 * real k / (real 1025 - 1)"
    by blast
  have a: "(1::nat) < 1025" and b: "(1024::nat) < 1025" by simp_all
  from t a have "self_phi_advance (StretchSpecTime_init 1 512 1025) ! 1
      = pi * of_int 512 * real 1 / (real 1025 - 1)"
    by blast
  moreover from t b have "self_phi_advance (StretchSpecTime_init 1 512 1025) ! 1024
      = pi * of_int 512 * real 1024 / (real 1025 - 1)"
    by blast
  ultimately show ?thesis by simp
qed

text \<open>
  With the defaults of the layer (\<open>hop_len = 512\<close>, \<open>num_bins = 1025\<close>) the entry at bin
  1 is \<open>\<pi> / 2\<close>, not \<open>\<pi> * 512 * 1 / 1025\<close> as the formula of C4 has it.
\<close>

theorem phi_advance_table_counterexample:
  "self_phi_advance (StretchSpecTime_init 1 512 1025) ! 1 = pi / 2
   \<and> self_phi_advance (StretchSpecTime_init 1 512 1025) ! 1 \<noteq> pi * 512 * 1 / 1025"
  by (simp add: StretchSpecTime_init_def nth_linspace_table)

subsection \<open>Framing\<close>

lemma stft_request_tensor_window:
  assumes "waveforms \<noteq> []" "last waveforms \<noteq> 0"
  shows "stft_request_of waveforms fft_len hop_len (Tensor (n # shape)) pad =
     Inr (length waveforms = 2,
          butlast (if length waveforms = 2 then 1 # waveforms else waveforms),
          \<lparr>req_input = [prod_list (butlast waveforms), last waveforms + 2 * pad],
           req_n_fft = fft_len, req_hop_length = hop_len,
           req_window = Tensor (n # shape), req_win_length = n\<rparr>)"
  using assms
  by (cases waveforms)
    (auto simp add: stft_request_of_def F_pad_def size0_def Let_def butlast_append
      split: list.splits)

lemma stft_defaults_tensor:
  "stft_defaults fft_len hop_len frame_len (Tensor shape) =
     Inr (fft_len, (case hop_len of None \<Rightarrow> fft_len div 4 | Some h \<Rightarrow> h), Tensor shape)"
  by (simp add: stft_defaults_def Let_def)

text \<open>
  C8 (amended). A window that is not a tensor is rejected by the framing code before
  \<open>torch.stft\<close> is called: the layer raises \<open>TypeError\<close> when it is constructed, and
  \<open>stft\<close> fails when it reads \<open>window.size(0)\<close> (so does a tensor of rank 0). The
  framing code checks neither the rank nor the length of a tensor window: a tensor of
  rank at least 1 is accepted at construction whatever its shape, and \<open>stft\<close> hands it
  unchanged to \<open>torch.stft\<close>, with \<open>win_length\<close> its first size. Only the argument
  validation of \<open>torch.stft\<close> itself can reject such a window.
\<close>

theorem window_validation:
  "stft_defaults fft_len hop_len frame_len NonTensor = Inl TypeError
   \<and> STFT_init fft_len hop_len frame_len NonTensor pad = Inl TypeError
   \<and> (\<exists>e. stft_request_of waveforms fft_len h NonTensor pad = Inl e)
   \<and> (\<exists>e. stft_request_of waveforms fft_len h PyNone pad = Inl e)
   \<and> (\<exists>e. stft_request_of waveforms fft_len h (Tensor []) pad = Inl e)
   \<and> (\<forall>n shape.
         stft_defaults fft_len hop_len frame_len (Tensor (n # shape))
           = Inr (fft_len, (case hop_len of None \<Rightarrow> fft_len div 4 | Some h \<Rightarrow> h), Tensor (n # shape))
         \<and> (waveforms \<noteq> [] \<and> last waveforms \<noteq> 0 \<longrightarrow>
              (\<exists>add_batch_dim leading_dims request.
                 stft_request_of waveforms fft_len h (Tensor (n # shape)) pad
                   = Inr (add_batch_dim, leading_dims, request)
                 \<and> req_window request = Tensor (n # shape) \<and> req_win_length request = n)))"
proof -
  have a: "stft_defaults fft_len hop_len frame_len NonTensor = Inl TypeError"
    by (simp add: stft_defaults_def Let_def)
  have b: "STFT_init fft_len hop_len frame_len NonTensor pad = Inl TypeError"
    by (simp add: STFT_init_def a)
  have c: "\<exists>e. stft_request_of waveforms fft_len h w pad = Inl e"
    if "size0 w = Inl e'" for w e'
    using that
    by (auto simp add: stft_request_of_def Let_def F_pad_def split: list.splits sum.splits)
  have d: "size0 NonTensor = Inl AttributeError" "size0 PyNone = Inl AttributeError"
    "size0 (Tensor []) = Inl IndexError"
    by (simp_all add: size0_def)
  show ?thesis
    using a b c [OF d(1)] c [OF d(2)] c [OF d(3)]
    by (auto simp add: stft_defaults_tensor stft_request_tensor_window)
qed

theorem window_validation_witness:
  "stft_defaults 2048 None None NonTensor = Inl TypeError
   \<and> (\<exists>add_batch_dim leading_dims request.
         stft_request_of [1, 16000] 1024 256 (Tensor [512]) 0
           = Inr (add_batch_dim, leading_dims, request)
         \<and> req_window request = Tensor [512] \<and> req_win_length request = 512)"
  using window_validation [of 2048 None None 0 "[1, 16000]" 256]
    window_validation [of 1024 None None 0 "[1, 16000]" 256]
  by simp

text \<open>
  A tensor window of length 0, and one of rank 2, pass the check of the layer, and
  \<open>stft\<close> pads, flattens and calls \<open>torch.stft\<close> with them: the framing code has
  rejected nothing when the transform is entered.
\<close>

theorem window_rank_length_counterexample:
  "STFT_init 2048 None None (Tensor [0]) 0
     = Inr \<lparr>self_fft_len = 2048, self_hop_len = 512, self_window = Tensor [0], self_pad = 0\<rparr>
   \<and> STFT_init 2048 None None (Tensor [4, 4]) 0
     = Inr \<lparr>self_fft_len = 2048, self_hop_len = 512, self_window = Tensor [4, 4], self_pad = 0\<rparr>
   \<and> stft_request_of [1, 16000] 2048 512 (Tensor [0]) 0
     = Inr (True, [1, 1],
            \<lparr>req_input = [1, 16000], req_n_fft = 2048, req_hop_length = 512,
             req_window = Tensor [0], req_win_length = 0\<rparr>)
   \<and> stft_request_of [1, 16000] 2048 512 (Tensor [4, 4]) 0
     = Inr (True, [1, 1],
            \<lparr>req_input = [1, 16000], req_n_fft = 2048, req_hop_length = 512,
             req_window = Tensor [4, 4], req_win_length = 4\<rparr>)"
  by (simp add: STFT_init_def stft_defaults_def stft_request_of_def size0_def Let_def)

text \<open>
  Under a valid configuration the local variable \<open>complex_specgrams\<close> gets the shape
  \<open>(B, C, fft_len / 2 + 1, num_frames, 2)\<close> with
  \<open>num_frames = (T + 2 * pad - fft_len) / hop_len + 1\<close>, and for a rank-2 waveform the
  same without the batch axis; the call itself returns \<open>None\<close>.
\<close>

lemma stft_local_shape_batched:
  assumes "0 < fft_len" "0 < hop_len" "0 < n" "n \<le> fft_len" "fft_len \<le> t + 2 * pad" "0 < t"
  shows "stft_complex_specgrams [b, c, t] fft_len hop_len (Tensor [n]) pad
           = Inr [b, c, fft_len div 2 + 1, (t + 2 * pad - fft_len) div hop_len + 1, 2]"
    and "stft [b, c, t] fft_len hop_len (Tensor [n]) pad = Inr PyNone"
  using assms
  by (simp_all add: stft_def stft_complex_specgrams_def stft_request_of_def torch_stft_def
      size0_def F_pad_def Let_def)

lemma stft_local_shape_unbatched:
  assumes "0 < fft_len" "0 < hop_len" "0 < n" "n \<le> fft_len" "fft_len \<le> t + 2 * pad" "0 < t"
  shows "stft_complex_specgrams [c, t] fft_len hop_len (Tensor [n]) pad
           = Inr [c, fft_len div 2 + 1, (t + 2 * pad - fft_len) div hop_len + 1, 2]"
    and "stft [c, t] fft_len hop_len (Tensor [n]) pad = Inr PyNone"
  using assms
  by (simp_all add: stft_def stft_complex_specgrams_def stft_request_of_def torch_stft_def
      size0_def F_pad_def Let_def)

text \<open>
  C1 (the code does not do what the claim and the docstring of \<open>stft\<close> say). For the
  batched waveform of the docstring, shape \<open>(16, 2, 10000)\<close> with \<open>fft_len = 2048\<close>,
  \<open>hop_len = 512\<close> and a window of length 2048, the body computes \<open>complex_specgrams\<close>
  of shape \<open>(16, 2, 1025, 16, 2)\<close>, as the claim states, but the call returns \<open>None\<close>;
  likewise for the rank-2 waveform \<open>(1, 16000)\<close>, where the local value has the shape
  \<open>(1, 513, 59, 2)\<close> without a leading batch axis.
\<close>

theorem stft_returns_none:
  "stft_complex_specgrams [16, 2, 10000] 2048 512 (Tensor [2048]) 0 = Inr [16, 2, 1025, 16, 2]
   \<and> stft [16, 2, 10000] 2048 512 (Tensor [2048]) 0 = Inr PyNone
   \<and> stft_complex_specgrams [1, 16000] 1024 256 (Tensor [1024]) 0 = Inr [1, 513, 59, 2]
   \<and> stft [1, 16000] 1024 256 (Tensor [1024]) 0 = Inr PyNone"
  by (simp add: stft_def stft_complex_specgrams_def stft_request_of_def torch_stft_def size0_def
      Let_def)

lemma stft_never_returns_tensor:
  "stft waveforms fft_len hop_len window pad \<noteq> Inr (Tensor shape)"
  by (simp add: stft_def split: sum.splits)


end
